theory Spec2Isabelle
  imports Main
begin

section \<open>Data model (types/executor.go)\<close>

text \<open>
  A Go \<^verbatim>\<open>map[string]interface{}\<close> is a finite map from strings to values of any
  type; the values are never inspected by the executor, so their type is a parameter.
  A Go map may also be \<^verbatim>\<open>nil\<close>, which is \<open>None\<close> here.
\<close>

type_synonym 'v jmap = "(string \<rightharpoonup> 'v) option"

record Step =
  Name :: string
  Lambda :: string
  InputTemplate :: string
  PassOutputAs :: string
  ErrorHandler :: string

record Workflow =
  Name :: string
  Description :: string
  Steps :: "Step list"

record WorkflowError =
  Step :: string
  Message :: string
  Code :: string

record 'v WorkflowInput =
  Data :: "'v jmap"
  Context :: "'v jmap"

text \<open>The field \<^verbatim>\<open>Error *WorkflowError\<close> is a pointer: \<open>None\<close> is \<^verbatim>\<open>nil\<close>.\<close>

record 'v WorkflowOutput =
  Data :: "'v jmap"
  Context :: "'v jmap"
  Error :: "WorkflowError option"

record 'v StepState =
  Input :: "'v WorkflowInput"
  Output :: "'v WorkflowOutput"

record 'v WorkflowState =
  Steps :: "string \<rightharpoonup> 'v StepState"
  CurrentStep :: string
  Completed :: bool

record 'v StepResult =
  Data :: "'v jmap"
  Error :: "WorkflowError option"

text \<open>Go's zero values, which a struct literal gives to the fields it leaves out.\<close>

definition zero_WorkflowInput :: "'v WorkflowInput" where
  "zero_WorkflowInput = \<lparr>WorkflowInput.Data = None, Context = None\<rparr>"

definition zero_WorkflowOutput :: "'v WorkflowOutput" where
  "zero_WorkflowOutput = \<lparr>WorkflowOutput.Data = None, Context = None, Error = None\<rparr>"

definition zero_StepState :: "'v StepState" where
  "zero_StepState = \<lparr>Input = zero_WorkflowInput, Output = zero_WorkflowOutput\<rparr>"

text \<open>
  Reading \<^verbatim>\<open>state.Steps[name]\<close>: a Go map read of a missing key gives the zero value.
\<close>

definition steps_at :: "'v WorkflowState \<Rightarrow> string \<Rightarrow> 'v StepState" where
  "steps_at state name =
     (case WorkflowState.Steps state name of None \<Rightarrow> zero_StepState | Some s \<Rightarrow> s)"

section \<open>The executor's collaborators\<close>

text \<open>
  The executor calls three libraries: \<^verbatim>\<open>text/template\<close>, \<^verbatim>\<open>net/http\<close> and
  \<^verbatim>\<open>encoding/json\<close>. They are the environment of the model.

  \<^item> \<^verbatim>\<open>http.Post\<close> either fails (a transport error) or gives a response, of which the
    executor reads the status code, the Content-Type header and the body
    (\<^verbatim>\<open>io.ReadAll\<close> may fail: \<open>None\<close>). What the network answers may depend on
    every request made before, so it is a function of the requests so far and of the
    request made now. A request is the URL and the body posted to it.
  \<^item> \<^verbatim>\<open>json.Unmarshal\<close> into a \<^verbatim>\<open>StepResult\<close> either fails, with the text of its
    error, or gives the decoded result.
  \<^item> \<^verbatim>\<open>template.Parse\<close> and \<^verbatim>\<open>Execute\<close> either fail or give the rendered bytes.
\<close>

record http_Response =
  StatusCode :: int
  ContentType :: string
  Body :: "string option"

datatype http_outcome = PostError | PostOk http_Response

type_synonym request = "string \<times> string"

datatype template_outcome = ParseError | ExecuteError | Rendered string

record 'v env =
  template_engine :: "string \<Rightarrow> 'v WorkflowState \<Rightarrow> template_outcome"
  http_Post :: "request list \<Rightarrow> request \<Rightarrow> http_outcome"
  json_Unmarshal :: "string \<Rightarrow> string + 'v StepResult"

text \<open>
  A template is text with actions between \<^verbatim>\<open>{{\<close> and \<^verbatim>\<open>}}\<close>. The lexer of
  \<^verbatim>\<open>text/template\<close> looks for the left delimiter; a template without one is a single
  text node, which \<^verbatim>\<open>Execute\<close> copies to the output unchanged, whatever the data.
  Templates with actions are left to the environment.
\<close>

fun has_action :: "string \<Rightarrow> bool" where
  "has_action (a # b # cs) = ((a = CHR ''{'' \<and> b = CHR ''{'') \<or> has_action (b # cs))"
| "has_action _ = False"

definition render_template :: "'v env \<Rightarrow> string \<Rightarrow> 'v WorkflowState \<Rightarrow> template_outcome" where
  "render_template env text state =
     (if has_action text then template_engine env text state else Rendered text)"

text \<open>\<^verbatim>\<open>fmt.Sprintf("%d", n)\<close>: the decimal digits of an integer.\<close>

fun decimal :: "nat \<Rightarrow> string" where
  "decimal n =
     (if n < 10 then [''0123456789'' ! n] else decimal (n div 10) @ [''0123456789'' ! (n mod 10)])"

declare decimal.simps [simp del]

definition Sprintf_d :: "int \<Rightarrow> string" where
  "Sprintf_d i = (if i < 0 then CHR ''-'' # decimal (nat (- i)) else decimal (nat i))"

section \<open>ExecuteStep\<close>

text \<open>
  The errors \<^verbatim>\<open>ExecuteStep\<close> returns as its second result (a Go \<^verbatim>\<open>error\<close>, with a
  nil \<^verbatim>\<open>*StepResult\<close>), one for each \<^verbatim>\<open>fmt.Errorf\<close> of the two files.
\<close>

datatype step_error =
  FailedToParseInputTemplate
| FailedToExecuteTemplate
| NoPortMappingFound string
| FailedToCallLambda
| FailedToReadLambdaResponse
| FailedToParseLambdaResponse string

record ChainExecutor =
  workflows :: "string \<rightharpoonup> Workflow"
  ports :: "string \<rightharpoonup> int"

definition NewChainExecutor :: ChainExecutor where
  "NewChainExecutor =
     \<lparr>workflows = Map.empty,
      ports = [''user_create'' \<mapsto> 8080, ''user_read'' \<mapsto> 8081,
               ''user_update'' \<mapsto> 8082, ''user_delete'' \<mapsto> 8083]\<rparr>"

definition error_result :: "string \<Rightarrow> string \<Rightarrow> string \<Rightarrow> 'v StepResult" where
  "error_result step message code =
     \<lparr>StepResult.Data = None,
      Error = Some \<lparr>Step = step, Message = message, Code = code\<rparr>\<rparr>"

text \<open>
  The second half of \<^verbatim>\<open>ExecuteStep\<close> in src/unnamed/part_002 (lines 72 to 118): what
  it makes of the outcome of \<^verbatim>\<open>http.Post\<close>.
\<close>

definition read_response ::
  "'v env \<Rightarrow> Step \<Rightarrow> http_outcome \<Rightarrow> step_error + 'v StepResult" where
  "read_response env step outcome =
     (case outcome of
        PostError \<Rightarrow> Inl FailedToCallLambda
      | PostOk resp \<Rightarrow>
          (case Body resp of
             None \<Rightarrow> Inl FailedToReadLambdaResponse
           | Some body \<Rightarrow>
               if ContentType resp \<noteq> ''application/json'' then
                 Inr (error_result (Step.Name step)
                        (''lambda returned unexpected Content-Type: '' @ ContentType resp
                           @ '', body: '' @ body)
                        ''INVALID_RESPONSE_TYPE'')
               else if StatusCode resp \<noteq> 200 then
                 Inr (error_result (Step.Name step)
                        (''lambda returned error: '' @ body) ''LAMBDA_ERROR'')
               else
                 (case json_Unmarshal env body of
                    Inl err \<Rightarrow>
                      Inr (error_result (Step.Name step)
                             (''failed to parse lambda response as JSON: '' @ body
                                @ '', error: '' @ err)
                             ''INVALID_JSON'')
                  | Inr result \<Rightarrow> Inr result)))"

text \<open>
  \<^verbatim>\<open>ExecuteStep\<close> of src/unnamed/part_002. It takes the requests made so far and
  returns them with its own request added, when it makes one.
\<close>

definition ExecuteStep ::
  "ChainExecutor \<Rightarrow> 'v env \<Rightarrow> Step \<Rightarrow> 'v WorkflowState \<Rightarrow> request list
     \<Rightarrow> (step_error + 'v StepResult) \<times> request list" where
  "ExecuteStep e env step state log =
     (case render_template env (InputTemplate step) state of
        ParseError \<Rightarrow> (Inl FailedToParseInputTemplate, log)
      | ExecuteError \<Rightarrow> (Inl FailedToExecuteTemplate, log)
      | Rendered inputBuf \<Rightarrow>
          (case ports e (Lambda step) of
             None \<Rightarrow> (Inl (NoPortMappingFound (Lambda step)), log)
           | Some port \<Rightarrow>
               let lambdaURL = ''http://localhost:'' @ Sprintf_d port
               in (read_response env step (http_Post env log (lambdaURL, inputBuf)),
                   log @ [(lambdaURL, inputBuf)])))"

text \<open>
  The second half of \<^verbatim>\<open>ExecuteStep\<close> in src/orchestrator/executor.go (lines 57 to
  85): no check of the Content-Type, and a body that does not parse is a Go error.
\<close>

definition read_response_orch ::
  "'v env \<Rightarrow> Step \<Rightarrow> http_outcome \<Rightarrow> step_error + 'v StepResult" where
  "read_response_orch env step outcome =
     (case outcome of
        PostError \<Rightarrow> Inl FailedToCallLambda
      | PostOk resp \<Rightarrow>
          (case Body resp of
             None \<Rightarrow> Inl FailedToReadLambdaResponse
           | Some body \<Rightarrow>
               if StatusCode resp \<noteq> 200 then
                 Inr (error_result (Step.Name step)
                        (''lambda returned error: '' @ body) ''LAMBDA_ERROR'')
               else
                 (case json_Unmarshal env body of
                    Inl err \<Rightarrow> Inl (FailedToParseLambdaResponse err)
                  | Inr result \<Rightarrow> Inr result)))"

definition ExecuteStep_orch ::
  "'v env \<Rightarrow> Step \<Rightarrow> 'v WorkflowState \<Rightarrow> request list
     \<Rightarrow> (step_error + 'v StepResult) \<times> request list" where
  "ExecuteStep_orch env step state log =
     (case render_template env (InputTemplate step) state of
        ParseError \<Rightarrow> (Inl FailedToParseInputTemplate, log)
      | ExecuteError \<Rightarrow> (Inl FailedToExecuteTemplate, log)
      | Rendered inputBuf \<Rightarrow>
          (let lambdaURL = ''http://'' @ Lambda step @ '':8080''
           in (read_response_orch env step (http_Post env log (lambdaURL, inputBuf)),
               log @ [(lambdaURL, inputBuf)])))"

section \<open>ExecuteChain\<close>

text \<open>
  \<^verbatim>\<open>ExecuteChain\<close> has the same text in both files and calls the
  \<^verbatim>\<open>ExecuteStep\<close> of its own file. The struct of src/orchestrator/executor.go has
  no \<^verbatim>\<open>ports\<close> field; its \<^verbatim>\<open>ExecuteStep\<close> does not read one.
\<close>

datatype source_file = part_002 | executor_go

definition ExecuteStep_of ::
  "source_file \<Rightarrow> ChainExecutor \<Rightarrow> 'v env \<Rightarrow> Step \<Rightarrow> 'v WorkflowState \<Rightarrow> request list
     \<Rightarrow> (step_error + 'v StepResult) \<times> request list" where
  "ExecuteStep_of f e env =
     (case f of part_002 \<Rightarrow> ExecuteStep e env | executor_go \<Rightarrow> ExecuteStep_orch env)"

definition read_response_of ::
  "source_file \<Rightarrow> 'v env \<Rightarrow> Step \<Rightarrow> http_outcome \<Rightarrow> step_error + 'v StepResult" where
  "read_response_of f =
     (case f of part_002 \<Rightarrow> read_response | executor_go \<Rightarrow> read_response_orch)"

text \<open>
  What \<^verbatim>\<open>ExecuteChain\<close> returns: a \<^verbatim>\<open>*WorkflowOutput\<close> with a nil error, or a nil
  output with an error. An index out of range is a run-time panic, which is neither.
\<close>

datatype chain_error =
  WorkflowNotFound string
| StepFailed string step_error
| ErrorHandlerFailed string step_error

datatype 'v chain_result =
  Returned "'v WorkflowOutput"
| Failed chain_error
| Panic

text \<open>
  The three writes of the loop body to \<^verbatim>\<open>state\<close>: the output of the step that ran,
  the outcome of the error handler, and the input of the next step.
\<close>

definition output_of :: "'v StepResult \<Rightarrow> 'v WorkflowOutput" where
  "output_of result =
     \<lparr>WorkflowOutput.Data = StepResult.Data result, Context = None,
      Error = StepResult.Error result\<rparr>"

definition set_step :: "'v WorkflowState \<Rightarrow> string \<Rightarrow> 'v StepState \<Rightarrow> 'v WorkflowState" where
  "set_step state name stepState =
     state\<lparr>WorkflowState.Steps := (WorkflowState.Steps state)(name \<mapsto> stepState)\<rparr>"

text \<open>
  The \<^verbatim>\<open>for i, step := range workflow.Steps\<close> loop from iteration \<open>i\<close> on, and the
  code after it. It returns the state too, which the Go code drops on return, so that
  what was recorded can be stated.
\<close>

function chain_loop ::
  "source_file \<Rightarrow> ChainExecutor \<Rightarrow> 'v env \<Rightarrow> Step list \<Rightarrow> nat \<Rightarrow> 'v WorkflowState
     \<Rightarrow> request list \<Rightarrow> 'v chain_result \<times> 'v WorkflowState \<times> request list" where
  "chain_loop f e env steps i state log =
     (if i < length steps then
        (let step = steps ! i in
         case ExecuteStep_of f e env step state log of
           (Inl err, log1) \<Rightarrow> (Failed (StepFailed (Step.Name step) err), state, log1)
         | (Inr result, log1) \<Rightarrow>
             (let stepState = (steps_at state (Step.Name step))\<lparr>Output := output_of result\<rparr>;
                  state1 = set_step state (Step.Name step) stepState
              in case StepResult.Error result of
                   Some werr \<Rightarrow>
                     (if ErrorHandler step \<noteq> [] then
                        (if i + 1 < length steps then
                           (let errorStep = steps ! (i + 1) in
                            case ExecuteStep_of f e env errorStep state1 log1 of
                              (Inl err, log2) \<Rightarrow>
                                (Failed (ErrorHandlerFailed (Step.Name errorStep) err),
                                 state1, log2)
                            | (Inr errorResult, log2) \<Rightarrow>
                                (Returned (zero_WorkflowOutput\<lparr>WorkflowOutput.Error := Some werr\<rparr>),
                                 set_step state1 (Step.Name errorStep)
                                   \<lparr>Input = Input stepState, Output = output_of errorResult\<rparr>,
                                 log2))
                         else (Panic, state1, log1))
                      else
                        (Returned (zero_WorkflowOutput\<lparr>WorkflowOutput.Error := Some werr\<rparr>),
                         state1, log1))
                 | None \<Rightarrow>
                     (if i + 1 < length steps then
                        (let nextStep = steps ! (i + 1);
                             state2 = set_step (state1\<lparr>CurrentStep := Step.Name nextStep\<rparr>)
                                        (Step.Name nextStep)
                                        \<lparr>Input = \<lparr>WorkflowInput.Data = StepResult.Data result,
                                                   Context = WorkflowInput.Context (Input stepState)\<rparr>,
                                         Output = zero_WorkflowOutput\<rparr>
                         in chain_loop f e env steps (i + 1) state2 log1)
                      else chain_loop f e env steps (i + 1) state1 log1)))
      else
        (case steps of
           [] \<Rightarrow> (Panic, state\<lparr>Completed := True\<rparr>, log)
         | _ # _ \<Rightarrow>
             (let state' = state\<lparr>Completed := True\<rparr>;
                  lastStep = steps ! (length steps - 1);
                  lastState = steps_at state' (Step.Name lastStep)
              in (Returned \<lparr>WorkflowOutput.Data = WorkflowOutput.Data (Output lastState),
                            Context = WorkflowInput.Context (Input lastState),
                            Error = None\<rparr>,
                  state', log))))"
  by pat_completeness auto
termination
  by (relation "measure (\<lambda>(f, e, env, steps, i, state, log). length steps - i)") auto

declare chain_loop.simps [simp del]

text \<open>
  \<^verbatim>\<open>ExecuteChain\<close>: the lookup of the workflow, the first state (where
  \<^verbatim>\<open>workflow.Steps[0]\<close> panics on an empty list), the loop.
\<close>

definition ExecuteChain ::
  "source_file \<Rightarrow> ChainExecutor \<Rightarrow> 'v env \<Rightarrow> string \<Rightarrow> 'v WorkflowInput \<Rightarrow> request list
     \<Rightarrow> 'v chain_result \<times> 'v WorkflowState option \<times> request list" where
  "ExecuteChain f e env name input log =
     (case workflows e name of
        None \<Rightarrow> (Failed (WorkflowNotFound name), None, log)
      | Some workflow \<Rightarrow>
          (case Workflow.Steps workflow of
             [] \<Rightarrow> (Panic, None, log)
           | first # _ \<Rightarrow>
               (let state = \<lparr>WorkflowState.Steps =
                               [Step.Name first \<mapsto> \<lparr>Input = input, Output = zero_WorkflowOutput\<rparr>],
                             CurrentStep = Step.Name first, Completed = False\<rparr>
                in case chain_loop f e env (Workflow.Steps workflow) 0 state log of
                     (res, state', log') \<Rightarrow> (res, Some state', log'))))"

section \<open>Direct invocation of one lambda (main.go)\<close>

text \<open>
  \<^verbatim>\<open>handleLambda\<close> calls \<^verbatim>\<open>ExecuteStep\<close> with a step that has only a name and a
  lambda (the input template is the empty string) and a state that holds the input
  of that one step.
\<close>

definition direct_step :: "string \<Rightarrow> Step" where
  "direct_step lambdaName =
     \<lparr>Step.Name = lambdaName, Lambda = lambdaName, InputTemplate = [], PassOutputAs = [],
      ErrorHandler = []\<rparr>"

definition direct_state :: "string \<Rightarrow> 'v WorkflowInput \<Rightarrow> 'v WorkflowState" where
  "direct_state lambdaName workflowInput =
     \<lparr>WorkflowState.Steps = [lambdaName \<mapsto> \<lparr>Input = workflowInput, Output = zero_WorkflowOutput\<rparr>],
      CurrentStep = lambdaName, Completed = False\<rparr>"

section \<open>Notions used to state the properties\<close>

text \<open>
  The URL a step's request goes to, in each file. The answer of the network to the
  \<open>j\<close>-th request of a list of requests, given the requests before it: what
  \<^verbatim>\<open>http.Post\<close> returned to the \<^verbatim>\<open>ExecuteStep\<close> that made that request. The three
  states the loop body builds (after it records the output of a step, after it also
  records the input of the next step, and before the first iteration). That every
  input recorded in a state has a given context.
\<close>

definition lambdaURL :: "source_file \<Rightarrow> ChainExecutor \<Rightarrow> Step \<Rightarrow> string option" where
  "lambdaURL f e step =
     (case f of
        part_002 \<Rightarrow> map_option (\<lambda>port. ''http://localhost:'' @ Sprintf_d port) (ports e (Lambda step))
      | executor_go \<Rightarrow> Some (''http://'' @ Lambda step @ '':8080''))"

definition response :: "'v env \<Rightarrow> request list \<Rightarrow> nat \<Rightarrow> http_outcome" where
  "response env log j = http_Post env (take j log) (log ! j)"

definition record_output :: "'v WorkflowState \<Rightarrow> Step \<Rightarrow> 'v StepResult \<Rightarrow> 'v WorkflowState" where
  "record_output state step result =
     set_step state (Step.Name step) ((steps_at state (Step.Name step))\<lparr>Output := output_of result\<rparr>)"

definition seed_next :: "'v WorkflowState \<Rightarrow> Step \<Rightarrow> Step \<Rightarrow> 'v StepResult \<Rightarrow> 'v WorkflowState" where
  "seed_next state step nextStep result =
     set_step ((record_output state step result)\<lparr>CurrentStep := Step.Name nextStep\<rparr>)
       (Step.Name nextStep)
       \<lparr>Input = \<lparr>WorkflowInput.Data = StepResult.Data result,
                 Context = WorkflowInput.Context (Input (steps_at state (Step.Name step)))\<rparr>,
        Output = zero_WorkflowOutput\<rparr>"

definition first_state :: "Step \<Rightarrow> 'v WorkflowInput \<Rightarrow> 'v WorkflowState" where
  "first_state first input =
     \<lparr>WorkflowState.Steps = [Step.Name first \<mapsto> \<lparr>Input = input, Output = zero_WorkflowOutput\<rparr>],
      CurrentStep = Step.Name first, Completed = False\<rparr>"

definition contexts_are :: "'v jmap \<Rightarrow> 'v WorkflowState \<Rightarrow> bool" where
  "contexts_are ctx state =
     (\<forall>name s. WorkflowState.Steps state name = Some s \<longrightarrow> WorkflowInput.Context (Input s) = ctx)"

text \<open>
  A JSON text that is an object begins, after insignificant whitespace (space, tab,
  line feed, carriage return), with a left brace. A body that does not begin so does
  not parse as a JSON object.
\<close>

definition json_whitespace :: "char \<Rightarrow> bool" where
  "json_whitespace c = (c = CHR '' '' \<or> c = CHR 0x09 \<or> c = CHR 0x0A \<or> c = CHR 0x0D)"

definition starts_json_object :: "string \<Rightarrow> bool" where
  "starts_json_object s = (case dropWhile json_whitespace s of [] \<Rightarrow> False | c # _ \<Rightarrow> c = CHR ''{'')"

section \<open>Concrete workflows, answers and runs\<close>

text \<open>
  The workflows below are of the shape of \<^verbatim>\<open>workflows/user_signup_chain.yaml\<close>, with
  templates that have no action, so that their rendering does not depend on the
  template engine. The values of the data maps are natural numbers.
\<close>

definition step_create :: Step where
  "step_create = \<lparr>Step.Name = ''create_user'', Lambda = ''user_create'',
     InputTemplate = ''{}'', PassOutputAs = ''user'', ErrorHandler = []\<rparr>"

definition step_verify :: Step where
  "step_verify = \<lparr>Step.Name = ''verify_user'', Lambda = ''user_read'',
     InputTemplate = ''{\"id\": 7}'', PassOutputAs = ''verified_user'', ErrorHandler = []\<rparr>"

definition step_cleanup :: Step where
  "step_cleanup = \<lparr>Step.Name = ''cleanup_user'', Lambda = ''user_delete'',
     InputTemplate = ''{\"id\": 7}'', PassOutputAs = ''cleanup_result'', ErrorHandler = []\<rparr>"

definition step_notify :: Step where
  "step_notify = \<lparr>Step.Name = ''notify'', Lambda = ''send_email'',
     InputTemplate = ''{}'', PassOutputAs = ''notified'', ErrorHandler = []\<rparr>"

definition signup :: Workflow where
  "signup = \<lparr>Workflow.Name = ''signup'', Description = [], Steps = [step_create, step_verify]\<rparr>"

definition signup_chain :: Workflow where
  "signup_chain = \<lparr>Workflow.Name = ''user_signup_chain'', Description = [],
     Steps = [step_create, step_verify, step_cleanup]\<rparr>"

definition guarded :: Workflow where
  "guarded = \<lparr>Workflow.Name = ''guarded'', Description = [],
     Steps = [step_create\<lparr>ErrorHandler := ''cleanup_user''\<rparr>, step_cleanup, step_verify]\<rparr>"

definition notified :: Workflow where
  "notified = \<lparr>Workflow.Name = ''notified'', Description = [],
     Steps = [step_create\<lparr>ErrorHandler := ''notify''\<rparr>, step_notify]\<rparr>"

definition last_guarded :: Workflow where
  "last_guarded = \<lparr>Workflow.Name = ''last_guarded'', Description = [],
     Steps = [step_create\<lparr>ErrorHandler := ''cleanup_user''\<rparr>]\<rparr>"

definition no_steps :: Workflow where
  "no_steps = \<lparr>Workflow.Name = ''no_steps'', Description = [], Steps = []\<rparr>"

definition executor1 :: ChainExecutor where
  "executor1 = NewChainExecutor\<lparr>workflows :=
     [''signup'' \<mapsto> signup, ''user_signup_chain'' \<mapsto> signup_chain, ''guarded'' \<mapsto> guarded,
      ''notified'' \<mapsto> notified, ''last_guarded'' \<mapsto> last_guarded, ''no_steps'' \<mapsto> no_steps]\<rparr>"

definition result_A :: "nat StepResult" where
  "result_A = \<lparr>StepResult.Data = Some [''id'' \<mapsto> 7], Error = None\<rparr>"

definition result_B :: "nat StepResult" where
  "result_B = \<lparr>StepResult.Data = Some [''found'' \<mapsto> 1], Error = None\<rparr>"

definition result_C :: "nat StepResult" where
  "result_C = \<lparr>StepResult.Data = Some [''success'' \<mapsto> 1], Error = None\<rparr>"

definition ok_response :: "string \<Rightarrow> http_outcome" where
  "ok_response body = PostOk \<lparr>StatusCode = 200, ContentType = ''application/json'', Body = Some body\<rparr>"

definition failed_response :: "string \<Rightarrow> http_outcome" where
  "failed_response body = PostOk \<lparr>StatusCode = 500, ContentType = ''application/json'', Body = Some body\<rparr>"

definition plain_response :: "int \<Rightarrow> string \<Rightarrow> http_outcome" where
  "plain_response status body =
     PostOk \<lparr>StatusCode = status, ContentType = ''text/plain; charset=utf-8'', Body = Some body\<rparr>"

text \<open>
  An environment whose first answer is the body \<^verbatim>\<open>A\<close> and every later one the body
  \<^verbatim>\<open>B\<close>, and whose decoder knows the bodies \<^verbatim>\<open>A\<close>, \<^verbatim>\<open>B\<close> and \<^verbatim>\<open>C\<close>. The others
  differ from it in what the network answers.
\<close>

definition env_ok :: "nat env" where
  "env_ok = \<lparr>template_engine = (\<lambda>text state. ExecuteError),
             http_Post = (\<lambda>log req. ok_response (if log = [] then ''A'' else ''B'')),
             json_Unmarshal = (\<lambda>body. if body = ''A'' then Inr result_A
                                        else if body = ''B'' then Inr result_B
                                        else if body = ''C'' then Inr result_C
                                        else Inl ''invalid character'')\<rparr>"

definition env_down :: "nat env" where
  "env_down = env_ok\<lparr>http_Post := (\<lambda>log req. if log = [] then ok_response ''A'' else PostError)\<rparr>"

definition env_second_fails :: "nat env" where
  "env_second_fails =
     env_ok\<lparr>http_Post := (\<lambda>log req. if log = [] then ok_response ''A''
                                     else failed_response ''user not found'')\<rparr>"

definition env_all_fail :: "nat env" where
  "env_all_fail = env_ok\<lparr>http_Post := (\<lambda>log req. failed_response ''database is down'')\<rparr>"

definition env_recover :: "nat env" where
  "env_recover =
     env_ok\<lparr>http_Post := (\<lambda>log req. if log = [] then failed_response ''database is down''
                                     else ok_response ''C'')\<rparr>"

definition input1 :: "nat WorkflowInput" where
  "input1 = \<lparr>WorkflowInput.Data = Some [''email'' \<mapsto> 1], Context = Some [''request'' \<mapsto> 42]\<rparr>"

definition step_plain :: Step where
  "step_plain = \<lparr>Step.Name = ''create_user'', Lambda = ''user_create'',
     InputTemplate = ''email=a@b.com'', PassOutputAs = ''user'', ErrorHandler = []\<rparr>"

definition env_garbled :: "nat env" where
  "env_garbled = env_ok\<lparr>http_Post := (\<lambda>log req. ok_response ''oops'')\<rparr>"

definition env_plain :: "int \<Rightarrow> nat env" where
  "env_plain status = env_ok\<lparr>http_Post := (\<lambda>log req. plain_response status ''A'')\<rparr>"

lemma ExecuteStep_of_Inr:
  assumes "ExecuteStep_of f e env step state log = (Inr r, log1)"
  obtains req where "log1 = log @ [req]"
    and "read_response_of f env step (http_Post env log req) = Inr r"
    and "lambdaURL f e step = Some (fst req)"
    and "render_template env (InputTemplate step) state = Rendered (snd req)"
  using assms
  by (cases f)
     (auto simp: ExecuteStep_of_def ExecuteStep_def ExecuteStep_orch_def read_response_of_def
        lambdaURL_def Let_def split: template_outcome.splits option.splits)

lemma ExecuteStep_of_Inl:
  assumes "ExecuteStep_of f e env step state log = (Inl err, log1)"
  obtains "log1 = log"
  | req where "log1 = log @ [req]"
    and "read_response_of f env step (http_Post env log req) = Inl err"
    and "lambdaURL f e step = Some (fst req)"
    and "render_template env (InputTemplate step) state = Rendered (snd req)"
  using assms
  by (cases f)
     (auto simp: ExecuteStep_of_def ExecuteStep_def ExecuteStep_orch_def read_response_of_def
        lambdaURL_def Let_def split: template_outcome.splits option.splits)

lemma loop_fatal:
  "i < length steps \<Longrightarrow> ExecuteStep_of f e env (steps ! i) state log = (Inl err, log1) \<Longrightarrow>
   chain_loop f e env steps i state log = (Failed (StepFailed (Step.Name (steps ! i)) err), state, log1)"
  by (subst chain_loop.simps) simp

lemma loop_error_no_handler:
  "i < length steps \<Longrightarrow> ExecuteStep_of f e env (steps ! i) state log = (Inr r, log1) \<Longrightarrow>
   StepResult.Error r = Some werr \<Longrightarrow> ErrorHandler (steps ! i) = [] \<Longrightarrow>
   chain_loop f e env steps i state log =
     (Returned (zero_WorkflowOutput\<lparr>WorkflowOutput.Error := Some werr\<rparr>),
      record_output state (steps ! i) r, log1)"
  by (subst chain_loop.simps) (simp add: record_output_def Let_def)

lemma loop_error_handler_panic:
  "i < length steps \<Longrightarrow> ExecuteStep_of f e env (steps ! i) state log = (Inr r, log1) \<Longrightarrow>
   StepResult.Error r = Some werr \<Longrightarrow> ErrorHandler (steps ! i) \<noteq> [] \<Longrightarrow> \<not> i + 1 < length steps \<Longrightarrow>
   chain_loop f e env steps i state log = (Panic, record_output state (steps ! i) r, log1)"
  by (subst chain_loop.simps) (simp add: record_output_def Let_def)

lemma loop_error_handler_fatal:
  "i + 1 < length steps \<Longrightarrow> ExecuteStep_of f e env (steps ! i) state log = (Inr r, log1) \<Longrightarrow>
   StepResult.Error r = Some werr \<Longrightarrow> ErrorHandler (steps ! i) \<noteq> [] \<Longrightarrow>
   ExecuteStep_of f e env (steps ! (i + 1)) (record_output state (steps ! i) r) log1 = (Inl err, log2) \<Longrightarrow>
   chain_loop f e env steps i state log =
     (Failed (ErrorHandlerFailed (Step.Name (steps ! (i + 1))) err),
      record_output state (steps ! i) r, log2)"
  by (subst chain_loop.simps) (simp add: record_output_def Let_def)

lemma loop_error_handler_ran:
  "i + 1 < length steps \<Longrightarrow> ExecuteStep_of f e env (steps ! i) state log = (Inr r, log1) \<Longrightarrow>
   StepResult.Error r = Some werr \<Longrightarrow> ErrorHandler (steps ! i) \<noteq> [] \<Longrightarrow>
   ExecuteStep_of f e env (steps ! (i + 1)) (record_output state (steps ! i) r) log1 = (Inr r', log2) \<Longrightarrow>
   chain_loop f e env steps i state log =
     (Returned (zero_WorkflowOutput\<lparr>WorkflowOutput.Error := Some werr\<rparr>),
      set_step (record_output state (steps ! i) r) (Step.Name (steps ! (i + 1)))
        \<lparr>Input = Input (steps_at state (Step.Name (steps ! i))), Output = output_of r'\<rparr>,
      log2)"
  by (subst chain_loop.simps) (simp add: record_output_def Let_def)

lemma loop_next:
  "i + 1 < length steps \<Longrightarrow> ExecuteStep_of f e env (steps ! i) state log = (Inr r, log1) \<Longrightarrow>
   StepResult.Error r = None \<Longrightarrow>
   chain_loop f e env steps i state log =
     chain_loop f e env steps (i + 1) (seed_next state (steps ! i) (steps ! (i + 1)) r) log1"
  by (subst chain_loop.simps) (simp add: record_output_def seed_next_def Let_def)

lemma loop_last:
  "i + 1 = length steps \<Longrightarrow> ExecuteStep_of f e env (steps ! i) state log = (Inr r, log1) \<Longrightarrow>
   StepResult.Error r = None \<Longrightarrow>
   chain_loop f e env steps i state log =
     (Returned \<lparr>WorkflowOutput.Data = StepResult.Data r,
                Context = WorkflowInput.Context (Input (steps_at state (Step.Name (steps ! i)))),
                Error = None\<rparr>,
      (record_output state (steps ! i) r)\<lparr>Completed := True\<rparr>, log1)"
  apply (subst chain_loop.simps)
  apply (simp add: Let_def)
  apply (subst chain_loop.simps)
  apply (cases steps)
   apply (auto simp add: record_output_def Let_def steps_at_def set_step_def output_of_def)
  done

lemma ExecuteStep_of_cases [case_names before_post after_post result]:
  obtains err where "ExecuteStep_of f e env step state log = (Inl err, log)"
  | err req where "ExecuteStep_of f e env step state log = (Inl err, log @ [req])"
      and "read_response_of f env step (http_Post env log req) = Inl err"
      and "lambdaURL f e step = Some (fst req)"
      and "render_template env (InputTemplate step) state = Rendered (snd req)"
  | r req where "ExecuteStep_of f e env step state log = (Inr r, log @ [req])"
      and "read_response_of f env step (http_Post env log req) = Inr r"
      and "lambdaURL f e step = Some (fst req)"
      and "render_template env (InputTemplate step) state = Rendered (snd req)"
proof (cases "ExecuteStep_of f e env step state log")
  case (Pair x log1)
  show ?thesis
  proof (cases x)
    case (Inl err)
    with Pair that(1,2) show ?thesis
      by (auto elim!: ExecuteStep_of_Inl)
  next
    case (Inr r)
    with Pair that(3) show ?thesis
      by (auto elim!: ExecuteStep_of_Inr)
  qed
qed

lemma loop_iteration [consumes 1, case_names fatal_before fatal_after error_plain error_panic
    handler_fatal_before handler_fatal_after handler_ran continue final]:
  assumes "i < length steps"
  obtains
    err where
      "chain_loop f e env steps i state log =
         (Failed (StepFailed (Step.Name (steps ! i)) err), state, log)"
  | err req where
      "read_response_of f env (steps ! i) (http_Post env log req) = Inl err"
      "lambdaURL f e (steps ! i) = Some (fst req)"
      "chain_loop f e env steps i state log =
         (Failed (StepFailed (Step.Name (steps ! i)) err), state, log @ [req])"
  | r req werr where
      "read_response_of f env (steps ! i) (http_Post env log req) = Inr r"
      "lambdaURL f e (steps ! i) = Some (fst req)"
      "StepResult.Error r = Some werr" "ErrorHandler (steps ! i) = []"
      "chain_loop f e env steps i state log =
         (Returned (zero_WorkflowOutput\<lparr>WorkflowOutput.Error := Some werr\<rparr>),
          record_output state (steps ! i) r, log @ [req])"
  | r req werr where
      "read_response_of f env (steps ! i) (http_Post env log req) = Inr r"
      "lambdaURL f e (steps ! i) = Some (fst req)"
      "StepResult.Error r = Some werr" "ErrorHandler (steps ! i) \<noteq> []" "i + 1 = length steps"
      "chain_loop f e env steps i state log = (Panic, record_output state (steps ! i) r, log @ [req])"
  | r req werr err where
      "read_response_of f env (steps ! i) (http_Post env log req) = Inr r"
      "lambdaURL f e (steps ! i) = Some (fst req)"
      "StepResult.Error r = Some werr" "ErrorHandler (steps ! i) \<noteq> []" "i + 1 < length steps"
      "chain_loop f e env steps i state log =
         (Failed (ErrorHandlerFailed (Step.Name (steps ! (i + 1))) err),
          record_output state (steps ! i) r, log @ [req])"
  | r req werr err req2 where
      "read_response_of f env (steps ! i) (http_Post env log req) = Inr r"
      "lambdaURL f e (steps ! i) = Some (fst req)"
      "StepResult.Error r = Some werr" "ErrorHandler (steps ! i) \<noteq> []" "i + 1 < length steps"
      "read_response_of f env (steps ! (i + 1)) (http_Post env (log @ [req]) req2) = Inl err"
      "lambdaURL f e (steps ! (i + 1)) = Some (fst req2)"
      "chain_loop f e env steps i state log =
         (Failed (ErrorHandlerFailed (Step.Name (steps ! (i + 1))) err),
          record_output state (steps ! i) r, log @ [req, req2])"
  | r req werr r2 req2 where
      "read_response_of f env (steps ! i) (http_Post env log req) = Inr r"
      "lambdaURL f e (steps ! i) = Some (fst req)"
      "StepResult.Error r = Some werr" "ErrorHandler (steps ! i) \<noteq> []" "i + 1 < length steps"
      "read_response_of f env (steps ! (i + 1)) (http_Post env (log @ [req]) req2) = Inr r2"
      "lambdaURL f e (steps ! (i + 1)) = Some (fst req2)"
      "render_template env (InputTemplate (steps ! (i + 1))) (record_output state (steps ! i) r)
         = Rendered (snd req2)"
      "chain_loop f e env steps i state log =
         (Returned (zero_WorkflowOutput\<lparr>WorkflowOutput.Error := Some werr\<rparr>),
          set_step (record_output state (steps ! i) r) (Step.Name (steps ! (i + 1)))
            \<lparr>Input = Input (steps_at state (Step.Name (steps ! i))), Output = output_of r2\<rparr>,
          log @ [req, req2])"
  | r req where
      "read_response_of f env (steps ! i) (http_Post env log req) = Inr r"
      "lambdaURL f e (steps ! i) = Some (fst req)"
      "render_template env (InputTemplate (steps ! i)) state = Rendered (snd req)"
      "StepResult.Error r = None" "i + 1 < length steps"
      "chain_loop f e env steps i state log =
         chain_loop f e env steps (i + 1) (seed_next state (steps ! i) (steps ! (i + 1)) r)
           (log @ [req])"
  | r req where
      "read_response_of f env (steps ! i) (http_Post env log req) = Inr r"
      "lambdaURL f e (steps ! i) = Some (fst req)"
      "render_template env (InputTemplate (steps ! i)) state = Rendered (snd req)"
      "StepResult.Error r = None" "i + 1 = length steps"
      "chain_loop f e env steps i state log =
         (Returned \<lparr>WorkflowOutput.Data = StepResult.Data r,
                    Context = WorkflowInput.Context (Input (steps_at state (Step.Name (steps ! i)))),
                    Error = None\<rparr>,
          (record_output state (steps ! i) r)\<lparr>Completed := True\<rparr>, log @ [req])"
proof (cases rule: ExecuteStep_of_cases [of f e env "steps ! i" state log])
  case (before_post err)
  with assms that(1) show ?thesis by (simp add: loop_fatal)
next
  case (after_post err req)
  with assms that(2) show ?thesis by (simp add: loop_fatal)
next
  case (result r req)
  show ?thesis
  proof (cases "StepResult.Error r")
    case None
    show ?thesis
    proof (cases "i + 1 < length steps")
      case True
      with None result that(8) show ?thesis by (simp add: loop_next)
    next
      case False
      with assms have "i + 1 = length steps" by simp
      with None result that(9) show ?thesis by (simp add: loop_last)
    qed
  next
    case (Some werr)
    show ?thesis
    proof (cases "ErrorHandler (steps ! i) = []")
      case True
      with Some result assms that(3) show ?thesis by (simp add: loop_error_no_handler)
    next
      case handler: False
      show ?thesis
      proof (cases "i + 1 < length steps")
        case False
        with assms have "i + 1 = length steps" by simp
        with Some result handler assms that(4) show ?thesis
          by (simp add: loop_error_handler_panic)
      next
        case True
        show ?thesis
        proof (cases rule: ExecuteStep_of_cases [of f e env "steps ! (i + 1)"
                 "record_output state (steps ! i) r" "log @ [req]"])
          case (before_post err)
          with Some result handler True that(5) show ?thesis
            by (simp add: loop_error_handler_fatal)
        next
          case (after_post err req2)
          with Some result handler True that(6) show ?thesis
            by (simp add: loop_error_handler_fatal)
        next
          case inner: (result r2 req2)
          with Some result handler True that(7) show ?thesis
            by (simp add: loop_error_handler_ran)
        qed
      qed
    qed
  qed
qed

lemma loop_exit: "\<not> i < length steps \<Longrightarrow> snd (snd (chain_loop f e env steps i state log)) = log"
  by (subst chain_loop.simps) (simp add: Let_def split: list.splits)

lemma chain_loop_extends:
  "chain_loop f e env steps i state log = (res, st', log') \<Longrightarrow> \<exists>ext. log' = log @ ext"
proof (induction "length steps - i" arbitrary: i state log)
  case 0
  then have "\<not> i < length steps" by simp
  from loop_exit [OF this, of f e env state log] "0.prems" show ?case by simp
next
  case (Suc n)
  then have i: "i < length steps" by simp
  from i show ?case
  proof (cases rule: loop_iteration [of i steps f e env state log])
    case (continue r req)
    with Suc.prems have "chain_loop f e env steps (i + 1)
        (seed_next state (steps ! i) (steps ! (i + 1)) r) (log @ [req]) = (res, st', log')"
      by simp
    moreover from Suc.hyps(2) have "n = length steps - (i + 1)" by simp
    ultimately have "\<exists>ext. log' = (log @ [req]) @ ext" by (rule Suc.hyps(1) [rotated])
    then show ?thesis by auto
  qed (use Suc.prems in auto)
qed

lemma response_here:
  "length log = n \<Longrightarrow> response env (log @ req # ext) n = http_Post env log req"
  by (auto simp: response_def)

lemma response_next:
  "Suc (length log) = n \<Longrightarrow> response env (log @ req # req2 # ext) n = http_Post env (log @ [req]) req2"
  using response_here [of "log @ [req]" n env req2 ext] by simp

lemma read_response_of_PostError [simp]:
  "read_response_of f env step PostError = Inl FailedToCallLambda"
  by (cases f) (simp_all add: read_response_of_def read_response_def read_response_orch_def)

lemma transport_failure_loop:
  assumes "chain_loop f e env steps i state log = (res, st', log')"
    and "length log = n0 + i" and "i \<le> j" and "n0 + j < length log'"
    and "response env log' (n0 + j) = PostError"
  shows "length log' = n0 + j + 1 \<and> j < length steps \<and>
         (res = Failed (StepFailed (Step.Name (steps ! j)) FailedToCallLambda) \<or>
          res = Failed (ErrorHandlerFailed (Step.Name (steps ! j)) FailedToCallLambda))"
  using assms
proof (induction "length steps - i" arbitrary: i state log)
  case 0
  then have "\<not> i < length steps" by simp
  from loop_exit [OF this, of f e env state log] "0.prems" show ?case by simp
next
  case (Suc n)
  then have i: "i < length steps" by simp
  from i show ?case
  proof (cases rule: loop_iteration [of i steps f e env state log])
    case (continue r req)
    with Suc.prems have run: "chain_loop f e env steps (i + 1)
        (seed_next state (steps ! i) (steps ! (i + 1)) r) (log @ [req]) = (res, st', log')"
      by simp
    from chain_loop_extends [OF run] obtain ext where ext: "log' = log @ req # ext" by auto
    have "j \<noteq> i"
    proof
      assume "j = i"
      with Suc.prems ext continue(1) show False by (simp add: response_here)
    qed
    with Suc.prems have "i + 1 \<le> j" by simp
    moreover from Suc.hyps(2) have "n = length steps - (i + 1)" by simp
    moreover from Suc.prems have "length (log @ [req]) = n0 + (i + 1)" by simp
    ultimately show ?thesis
      using Suc.hyps(1) [of "i + 1" _ "log @ [req]"] run Suc.prems(4,5) by blast
  next
    case (handler_fatal_after r req werr err req2)
    with Suc.prems have "j = i \<or> j = Suc i" by auto
    with handler_fatal_after Suc.prems show ?thesis
      by (auto simp: response_here response_next)
  next
    case (handler_ran r req werr r2 req2)
    with Suc.prems have "j = i \<or> j = Suc i" by auto
    with handler_ran Suc.prems show ?thesis
      by (auto simp: response_here response_next)
  qed (use Suc.prems i in \<open>auto simp: response_here [where ext = "[]"] le_less_Suc_eq\<close>)
qed

lemma steps_at_record_output [simp]:
  "steps_at (record_output state step r) (Step.Name step)
     = (steps_at state (Step.Name step))\<lparr>Output := output_of r\<rparr>"
  by (simp add: record_output_def steps_at_def set_step_def)

lemma steps_at_Completed [simp]: "steps_at (state\<lparr>Completed := b\<rparr>) name = steps_at state name"
  by (simp add: steps_at_def)

lemma success_loop:
  assumes "chain_loop f e env steps i state log = (res, st', log')"
    and "i < length steps" and "length log = n0 + i"
    and "\<forall>err. res \<noteq> Failed err" and "res \<noteq> Panic"
    and "\<forall>j r. n0 + j < length log' \<longrightarrow>
           read_response_of f env (steps ! j) (response env log' (n0 + j)) = Inr r \<longrightarrow>
           StepResult.Error r = None"
  shows "length log' = n0 + length steps \<and>
         (\<forall>j. i \<le> j \<and> j < length steps \<longrightarrow> lambdaURL f e (steps ! j) = Some (fst (log' ! (n0 + j)))) \<and>
         (\<exists>r. read_response_of f env (last steps) (response env log' (n0 + length steps - 1)) = Inr r \<and>
              StepResult.Error r = None \<and>
              res = Returned \<lparr>WorkflowOutput.Data = StepResult.Data r,
                              Context = WorkflowInput.Context (Input (steps_at st' (Step.Name (last steps)))),
                              Error = None\<rparr>) \<and>
         Completed st'"
  using assms
proof (induction "length steps - i" arbitrary: i state log)
  case 0
  then show ?case by simp
next
  case (Suc n)
  have noerr: "StepResult.Error r = None"
    if "log' = log @ req # ext"
      and "read_response_of f env (steps ! i) (http_Post env log req) = Inr r" for req ext r
  proof -
    from that(1) Suc.prems(3) have "n0 + i < length log'" by simp
    moreover from that Suc.prems(3)
    have "read_response_of f env (steps ! i) (response env log' (n0 + i)) = Inr r"
      by (simp add: response_here)
    ultimately show ?thesis using Suc.prems(6) by blast
  qed
  from Suc.prems(2) show ?case
  proof (cases rule: loop_iteration [of i steps f e env state log])
    case (continue r req)
    with Suc.prems have run: "chain_loop f e env steps (i + 1)
        (seed_next state (steps ! i) (steps ! (i + 1)) r) (log @ [req]) = (res, st', log')"
      by simp
    from chain_loop_extends [OF run] obtain ext where ext: "log' = log @ req # ext" by auto
    from Suc.hyps(2) have n: "n = length steps - (i + 1)" by simp
    from Suc.prems have len: "length (log @ [req]) = n0 + (i + 1)" by simp
    note IH = Suc.hyps(1) [OF n run continue(5) len Suc.prems(4,5,6)]
    have "lambdaURL f e (steps ! j) = Some (fst (log' ! (n0 + j)))"
      if "i \<le> j" "j < length steps" for j
    proof (cases "j = i")
      case True
      with ext Suc.prems(3) continue(2) show ?thesis by (simp add: nth_append)
    next
      case False
      with that have "i + 1 \<le> j" by simp
      with IH that show ?thesis by blast
    qed
    with IH show ?thesis by blast
  next
    case (final r req)
    with Suc.prems have res: "res = Returned \<lparr>WorkflowOutput.Data = StepResult.Data r,
          Context = WorkflowInput.Context (Input (steps_at state (Step.Name (steps ! i)))),
          Error = None\<rparr>"
      and st': "st' = (record_output state (steps ! i) r)\<lparr>Completed := True\<rparr>"
      and log': "log' = log @ [req]"
      by simp_all
    from final(5) Suc.prems(2) have last: "last steps = steps ! i"
      by (metis add_diff_cancel_right' last_conv_nth list.size(3) not_less_zero)
    have "lambdaURL f e (steps ! j) = Some (fst (log' ! (n0 + j)))"
      if "i \<le> j" "j < length steps" for j
    proof -
      from that final(5) have "j = i" by simp
      with log' Suc.prems(3) final(2) show ?thesis by (simp add: nth_append)
    qed
    moreover from final(5) Suc.prems(3) log' have "length log' = n0 + length steps" by simp
    moreover from final(5) Suc.prems(3) log' final(1)
    have "read_response_of f env (last steps) (response env log' (n0 + length steps - 1)) = Inr r"
      unfolding last by (simp add: response_here [where ext = "[]"] flip: final(5))
    ultimately show ?thesis
      using final(4) res st' last by simp
  next
    case (fatal_before err)
    with Suc.prems show ?thesis by auto
  next
    case (fatal_after err req)
    with Suc.prems show ?thesis by auto
  next
    case (error_plain r req werr)
    with Suc.prems noerr [of req "[]" r] show ?thesis by auto
  next
    case (error_panic r req werr)
    with Suc.prems show ?thesis by auto
  next
    case (handler_fatal_before r req werr err)
    with Suc.prems show ?thesis by auto
  next
    case (handler_fatal_after r req werr err req2)
    with Suc.prems show ?thesis by auto
  next
    case (handler_ran r req werr r2 req2)
    with Suc.prems noerr [of req "[req2]" r] show ?thesis by auto
  qed
qed



lemma ExecuteChain_run:
  assumes "workflows e name = Some workflow"
    and "ExecuteChain f e env name input log = (res, st, log')"
  obtains "Workflow.Steps workflow = []" "res = Panic" "st = None" "log' = log"
  | st' where "Workflow.Steps workflow \<noteq> []" "st = Some st'"
      "chain_loop f e env (Workflow.Steps workflow) 0
         (first_state (hd (Workflow.Steps workflow)) input) log = (res, st', log')"
  using assms
  by (cases "Workflow.Steps workflow")
     (auto simp: ExecuteChain_def first_state_def Let_def split: prod.splits)

lemma ExecuteStep_of_PostError:
  assumes "ExecuteStep_of f e env step state log = (x, log @ [req])"
    and "http_Post env log req = PostError"
  shows "x = Inl FailedToCallLambda"
  using assms
  by (cases rule: ExecuteStep_of_cases [of f e env step state log]) auto



lemma contexts_are_Completed [simp]:
  "contexts_are ctx (state\<lparr>Completed := b\<rparr>) = contexts_are ctx state"
  by (simp add: contexts_are_def)







lemma ExecuteStep_classifies:
  assumes "ExecuteStep e env step state log = (x, log @ [req])"
    and "http_Post env log req = PostOk resp" and "Body resp = Some body"
  shows "(ContentType resp \<noteq> ''application/json'' \<longrightarrow>
            (\<exists>msg. x = Inr (error_result (Step.Name step) msg ''INVALID_RESPONSE_TYPE''))) \<and>
         (ContentType resp = ''application/json'' \<longrightarrow> StatusCode resp = 200 \<longrightarrow>
            (\<forall>err. json_Unmarshal env body = Inl err \<longrightarrow>
               (\<exists>msg. x = Inr (error_result (Step.Name step) msg ''INVALID_JSON''))))"
  using assms
  by (auto simp: ExecuteStep_def read_response_def Let_def
        split: template_outcome.splits option.splits)

lemma read_response_agree:
  assumes "\<forall>resp body. outcome = PostOk resp \<longrightarrow> Body resp = Some body \<longrightarrow>
             ContentType resp = ''application/json'' \<and>
             (StatusCode resp = 200 \<longrightarrow> (\<exists>result. json_Unmarshal env body = Inr result))"
  shows "read_response env step outcome = read_response_orch env step outcome"
proof (cases outcome)
  case PostError
  then show ?thesis by (simp add: read_response_def read_response_orch_def)
next
  case (PostOk resp)
  show ?thesis
  proof (cases "Body resp")
    case None
    with PostOk show ?thesis by (simp add: read_response_def read_response_orch_def)
  next
    case (Some body)
    with PostOk assms have "ContentType resp = ''application/json''"
      and "StatusCode resp = 200 \<longrightarrow> (\<exists>result. json_Unmarshal env body = Inr result)"
      by blast+
    with PostOk Some show ?thesis
      by (auto simp: read_response_def read_response_orch_def)
  qed
qed


lemma Input_steps_at_record_output [simp]:
  "Input (steps_at (record_output state step r) n) = Input (steps_at state n)"
  by (simp add: record_output_def steps_at_def set_step_def)







subsection \<open>The concrete runs, evaluated\<close>

lemma Sprintf_d_ports:
  "Sprintf_d 8080 = ''8080''" "Sprintf_d 8081 = ''8081''" "Sprintf_d 8083 = ''8083''"
  by (simp_all add: Sprintf_d_def decimal.simps)

lemmas run_defs =
  ExecuteChain_def executor1_def NewChainExecutor_def signup_def signup_chain_def guarded_def
  notified_def last_guarded_def no_steps_def step_create_def step_verify_def step_cleanup_def
  step_notify_def chain_loop.simps ExecuteStep_of_def ExecuteStep_def ExecuteStep_orch_def
  render_template_def env_ok_def env_down_def env_second_fails_def env_all_fail_def
  env_recover_def ok_response_def failed_response_def read_response_def read_response_orch_def
  error_result_def Sprintf_d_ports Let_def steps_at_def set_step_def result_A_def result_B_def
  result_C_def output_of_def input1_def zero_WorkflowOutput_def zero_StepState_def
  zero_WorkflowInput_def

lemma run_ok:
  "ExecuteChain part_002 executor1 env_ok ''signup'' input1 [] =
     (Returned \<lparr>WorkflowOutput.Data = Some [''found'' \<mapsto> 1], Context = Some [''request'' \<mapsto> 42],
                Error = None\<rparr>,
      Some \<lparr>WorkflowState.Steps =
              [''create_user'' \<mapsto> \<lparr>Input = input1, Output = output_of result_A\<rparr>,
               ''verify_user'' \<mapsto>
                 \<lparr>Input = \<lparr>WorkflowInput.Data = Some [''id'' \<mapsto> 7], Context = Some [''request'' \<mapsto> 42]\<rparr>,
                  Output = output_of result_B\<rparr>],
             CurrentStep = ''verify_user'', Completed = True\<rparr>,
      [(''http://localhost:8080'', ''{}''), (''http://localhost:8081'', ''{\"id\": 7}'')])"
  by (simp add: run_defs)

lemma run_down:
  "ExecuteChain part_002 executor1 env_down ''signup'' input1 [] =
     (Failed (StepFailed ''verify_user'' FailedToCallLambda),
      Some \<lparr>WorkflowState.Steps =
              [''create_user'' \<mapsto> \<lparr>Input = input1, Output = output_of result_A\<rparr>,
               ''verify_user'' \<mapsto>
                 \<lparr>Input = \<lparr>WorkflowInput.Data = Some [''id'' \<mapsto> 7], Context = Some [''request'' \<mapsto> 42]\<rparr>,
                  Output = zero_WorkflowOutput\<rparr>],
             CurrentStep = ''verify_user'', Completed = False\<rparr>,
      [(''http://localhost:8080'', ''{}''), (''http://localhost:8081'', ''{\"id\": 7}'')])"
  by (simp add: run_defs)





lemma run_last_guarded:
  "ExecuteChain f executor1 env_all_fail ''last_guarded'' input1 [] =
     (Panic,
      Some \<lparr>WorkflowState.Steps =
              [''create_user'' \<mapsto>
                 \<lparr>Input = input1,
                  Output = output_of (error_result ''create_user''
                             ''lambda returned error: database is down'' ''LAMBDA_ERROR'')\<rparr>],
             CurrentStep = ''create_user'', Completed = False\<rparr>,
      [(case f of part_002 \<Rightarrow> ''http://localhost:8080'' | executor_go \<Rightarrow> ''http://user_create:8080'',
        ''{}'')])"
  by (cases f) (simp_all add: run_defs)

lemma run_no_steps:
  "ExecuteChain f executor1 env ''no_steps'' input [] = (Panic, None, [])"
  by (simp add: ExecuteChain_def executor1_def no_steps_def)

text \<open>
  Claim C1. A loaded workflow has \<open>N\<close> steps. Suppose that the run meets no fatal error
  (\<^verbatim>\<open>ExecuteChain\<close> returns no Go error and does not panic) and that no answer to a
  request of the run is read by \<^verbatim>\<open>ExecuteStep\<close> as a result with an error. Then the
  run makes exactly \<open>N\<close> requests, to the lambdas of the steps in the order of the
  definition, and returns an output whose data is the data of the result read from
  the answer to the last request and whose context is the context of the input
  recorded for the last step.
\<close>

theorem ExecuteChain_success:
  assumes "workflows e name = Some workflow"
    and "ExecuteChain f e env name input log = (res, st, log')"
    and "\<forall>err. res \<noteq> Failed err" and "res \<noteq> Panic"
    and "\<forall>j r. length log + j < length log' \<longrightarrow>
           read_response_of f env (Workflow.Steps workflow ! j) (response env log' (length log + j)) = Inr r \<longrightarrow>
           StepResult.Error r = None"
  shows "length log' = length log + length (Workflow.Steps workflow) \<and>
         map (\<lambda>req. Some (fst req)) (drop (length log) log') = map (lambdaURL f e) (Workflow.Steps workflow) \<and>
         (\<exists>r st'. read_response_of f env (last (Workflow.Steps workflow)) (response env log' (length log' - 1)) = Inr r \<and>
            st = Some st' \<and> Completed st' \<and>
            res = Returned \<lparr>WorkflowOutput.Data = StepResult.Data r,
                            Context = WorkflowInput.Context
                              (Input (steps_at st' (Step.Name (last (Workflow.Steps workflow))))),
                            Error = None\<rparr>)"
  using assms(1,2)
proof (cases rule: ExecuteChain_run)
  case 1
  with assms(4) show ?thesis by simp
next
  case (2 st')
  let ?steps = "Workflow.Steps workflow"
  from 2(1) have pos: "0 < length ?steps" by simp
  have len0: "length log = length log + 0" by simp
  note L = success_loop [OF 2(3) pos len0 assms(3,4,5)]
  then have len: "length log' = length log + length ?steps" by blast
  have "map (\<lambda>req. Some (fst req)) (drop (length log) log') = map (lambdaURL f e) ?steps"
  proof (rule nth_equalityI)
    show "length (map (\<lambda>req. Some (fst req)) (drop (length log) log')) = length (map (lambdaURL f e) ?steps)"
      using len by simp
  next
    fix j assume "j < length (map (\<lambda>req. Some (fst req)) (drop (length log) log'))"
    with len have j: "j < length ?steps" by simp
    with L have "lambdaURL f e (?steps ! j) = Some (fst (log' ! (length log + j)))" by blast
    with j len show "map (\<lambda>req. Some (fst req)) (drop (length log) log') ! j = map (lambdaURL f e) ?steps ! j"
      by simp
  qed
  moreover from len pos have "length log + length ?steps - 1 = length log' - 1" by simp
  ultimately show ?thesis using L len 2(2) by auto
qed

theorem ExecuteChain_success_witness:
  "workflows executor1 ''signup'' = Some signup \<and>
   fst (ExecuteChain part_002 executor1 env_ok ''signup'' input1 []) =
     Returned \<lparr>WorkflowOutput.Data = Some [''found'' \<mapsto> 1],
               Context = Some [''request'' \<mapsto> 42], Error = None\<rparr> \<and>
   length (snd (snd (ExecuteChain part_002 executor1 env_ok ''signup'' input1 []))) =
     length ([] :: request list) + length (Workflow.Steps signup) \<and>
   map (\<lambda>req. Some (fst req))
       (drop (length ([] :: request list))
          (snd (snd (ExecuteChain part_002 executor1 env_ok ''signup'' input1 [])))) =
     map (lambdaURL part_002 executor1) (Workflow.Steps signup)"
proof -
  have wf: "workflows executor1 ''signup'' = Some signup"
    by (simp add: executor1_def)
  have noerr: "\<forall>j r. length ([] :: request list) + j
        < length [(''http://localhost:8080'', ''{}''), (''http://localhost:8081'', ''{\"id\": 7}'')] \<longrightarrow>
      read_response_of part_002 env_ok (Workflow.Steps signup ! j)
        (response env_ok
           [(''http://localhost:8080'', ''{}''), (''http://localhost:8081'', ''{\"id\": 7}'')]
           (length ([] :: request list) + j)) = Inr r \<longrightarrow>
      StepResult.Error r = None"
  proof (intro allI impI)
    fix j r
    assume "length ([] :: request list) + j
        < length [(''http://localhost:8080'', ''{}''), (''http://localhost:8081'', ''{\"id\": 7}'')]"
    then have "j = 0 \<or> j = 1" by auto
    moreover assume "read_response_of part_002 env_ok (Workflow.Steps signup ! j)
        (response env_ok
           [(''http://localhost:8080'', ''{}''), (''http://localhost:8081'', ''{\"id\": 7}'')]
           (length ([] :: request list) + j)) = Inr r"
    ultimately show "StepResult.Error r = None"
      by (auto simp: read_response_of_def read_response_def response_def env_ok_def
            ok_response_def result_A_def result_B_def signup_def)
  qed
  from ExecuteChain_success [OF wf run_ok _ _ noerr] wf run_ok show ?thesis
    by simp
qed







text \<open>
  Claim C4. \<^verbatim>\<open>ExecuteStep\<close> should return a \<^verbatim>\<open>StepResult\<close> with the code
  \<^verbatim>\<open>INVALID_RESPONSE_TYPE\<close> for an answer whose Content-Type is not
  \<^verbatim>\<open>application/json\<close>, and one with the code \<^verbatim>\<open>INVALID_JSON\<close> for a 200 answer
  whose body does not parse, in both cases with a nil Go error. The \<^verbatim>\<open>ExecuteStep\<close>
  of src/unnamed/part_002 does so (lemma \<open>ExecuteStep_classifies\<close>). The one of
  src/orchestrator/executor.go does not: for a 200 answer with the body \<^verbatim>\<open>oops\<close> it
  returns a Go error, and for a 200 answer of type \<^verbatim>\<open>text/plain\<close> it returns the
  decoded result, without error.
\<close>

theorem executor_go_misreads_responses:
  "fst (ExecuteStep_orch env_garbled step_create (first_state step_create input1) [])
     = Inl (FailedToParseLambdaResponse ''invalid character'') \<and>
   fst (ExecuteStep_orch (env_plain 200) step_create (first_state step_create input1) [])
     = Inr result_A \<and>
   fst (ExecuteStep NewChainExecutor env_garbled step_create (first_state step_create input1) [])
     = Inr (error_result ''create_user''
              ''failed to parse lambda response as JSON: oops, error: invalid character''
              ''INVALID_JSON'') \<and>
   fst (ExecuteStep NewChainExecutor (env_plain 200) step_create (first_state step_create input1) [])
     = Inr (error_result ''create_user''
              ''lambda returned unexpected Content-Type: text/plain; charset=utf-8, body: A''
              ''INVALID_RESPONSE_TYPE'')"
  by (simp add: ExecuteStep_orch_def ExecuteStep_def render_template_def step_create_def
        NewChainExecutor_def Sprintf_d_ports env_garbled_def env_plain_def env_ok_def
        ok_response_def plain_response_def read_response_def read_response_orch_def Let_def)

text \<open>
  Claim C5. When \<^verbatim>\<open>http.Post\<close> fails, \<^verbatim>\<open>ExecuteStep\<close> returns a Go error and no
  \<^verbatim>\<open>StepResult\<close>. In a run of \<^verbatim>\<open>ExecuteChain\<close>, a request on which
  \<^verbatim>\<open>http.Post\<close> fails is the last request of the run (no error handler is
  dispatched after it), and \<^verbatim>\<open>ExecuteChain\<close> returns that error, wrapped with the
  name of the step, and no \<^verbatim>\<open>WorkflowOutput\<close>.
\<close>

theorem transport_failure_is_fatal:
  assumes "workflows e name = Some workflow"
    and "ExecuteChain f e env name input log = (res, st, log')"
    and "length log + j < length log'"
    and "response env log' (length log + j) = PostError"
  shows "(\<forall>step state log0 x req.
            ExecuteStep_of f e env step state log0 = (x, log0 @ [req]) \<longrightarrow>
            http_Post env log0 req = PostError \<longrightarrow> x = Inl FailedToCallLambda) \<and>
         j < length (Workflow.Steps workflow) \<and>
         (res = Failed (StepFailed (Step.Name (Workflow.Steps workflow ! j)) FailedToCallLambda) \<or>
          res = Failed (ErrorHandlerFailed (Step.Name (Workflow.Steps workflow ! j)) FailedToCallLambda)) \<and>
         length log' = length log + j + 1"
  using assms(1,2)
proof (cases rule: ExecuteChain_run)
  case 1
  with assms(3) show ?thesis by simp
next
  case (2 st')
  have len0: "length log = length log + 0" by simp
  from transport_failure_loop [OF 2(3) len0 _ assms(3,4)] ExecuteStep_of_PostError
  show ?thesis by blast
qed

theorem transport_failure_is_fatal_witness:
  "workflows executor1 ''signup'' = Some signup \<and>
   response env_down
     [(''http://localhost:8080'', ''{}''), (''http://localhost:8081'', ''{\"id\": 7}'')]
     (length ([] :: request list) + 1) = PostError \<and>
   fst (ExecuteChain part_002 executor1 env_down ''signup'' input1 []) =
     Failed (StepFailed ''verify_user'' FailedToCallLambda) \<and>
   length (snd (snd (ExecuteChain part_002 executor1 env_down ''signup'' input1 []))) =
     length ([] :: request list) + 1 + 1"
proof -
  have wf: "workflows executor1 ''signup'' = Some signup"
    by (simp add: executor1_def)
  have dispatched: "length ([] :: request list) + 1
      < length [(''http://localhost:8080'', ''{}''), (''http://localhost:8081'', ''{\"id\": 7}'')]"
    by simp
  have down: "response env_down
      [(''http://localhost:8080'', ''{}''), (''http://localhost:8081'', ''{\"id\": 7}'')]
      (length ([] :: request list) + 1) = PostError"
    by (simp add: response_def env_down_def)
  from transport_failure_is_fatal [OF wf run_down dispatched down] wf down show ?thesis
    by (simp add: run_down)
qed



text \<open>
  Claim C7. \<^verbatim>\<open>ExecuteChain\<close> should return normally for every workflow of the
  registry. It does not: \<^verbatim>\<open>workflow.Steps[0]\<close> is out of range for a workflow without
  steps, and \<^verbatim>\<open>workflow.Steps[i+1]\<close> is out of range when the last step names an
  error handler and its dispatch returns a result with an error. Both runs end in a
  panic, in either file.
\<close>

theorem ExecuteChain_panics:
  "workflows executor1 ''no_steps'' = Some no_steps \<and>
   ExecuteChain part_002 executor1 env_ok ''no_steps'' input1 [] = (Panic, None, []) \<and>
   ExecuteChain executor_go executor1 env_ok ''no_steps'' input1 [] = (Panic, None, []) \<and>
   workflows executor1 ''last_guarded'' = Some last_guarded \<and>
   fst (ExecuteChain part_002 executor1 env_all_fail ''last_guarded'' input1 []) = Panic \<and>
   fst (ExecuteChain executor_go executor1 env_all_fail ''last_guarded'' input1 []) = Panic"
  unfolding run_no_steps run_last_guarded
  by (simp add: executor1_def)

text \<open>
  Claim C8, amended. The body \<^verbatim>\<open>ExecuteStep\<close> posts is what the template rendered to,
  as it is: nothing checks that it is JSON. For an input template without an action
  the body is the text of the template, whatever the state.
\<close>

theorem payload_is_rendered_template:
  assumes "ExecuteStep_of f e env step state log = (x, log1)" and "log1 \<noteq> log"
  shows "\<exists>url payload. log1 = log @ [(url, payload)] \<and> lambdaURL f e step = Some url \<and>
           render_template env (InputTemplate step) state = Rendered payload \<and>
           (\<not> has_action (InputTemplate step) \<longrightarrow> payload = InputTemplate step)"
proof (cases rule: ExecuteStep_of_cases [of f e env step state log])
  case (before_post err)
  with assms show ?thesis by simp
next
  case (after_post err req)
  with assms show ?thesis
    by (cases req) (auto simp: render_template_def split: if_splits)
next
  case (result r req)
  with assms show ?thesis
    by (cases req) (auto simp: render_template_def split: if_splits)
qed

theorem payload_is_rendered_template_witness:
  "ExecuteStep_of part_002 NewChainExecutor env_ok step_plain
      (direct_state ''create_user'' input1) [] =
     (Inr result_A, [] @ [(''http://localhost:8080'', ''email=a@b.com'')]) \<and>
   \<not> has_action (InputTemplate step_plain) \<and>
   render_template env_ok (InputTemplate step_plain) (direct_state ''create_user'' input1)
     = Rendered ''email=a@b.com''"
proof -
  have run: "ExecuteStep_of part_002 NewChainExecutor env_ok step_plain
      (direct_state ''create_user'' input1) [] =
     (Inr result_A, [(''http://localhost:8080'', ''email=a@b.com'')])"
    by (simp add: ExecuteStep_of_def ExecuteStep_def render_template_def step_plain_def
          NewChainExecutor_def Sprintf_d_ports env_ok_def ok_response_def read_response_def)
  have "[(''http://localhost:8080'', ''email=a@b.com'')] \<noteq> ([] :: request list)" by simp
  from payload_is_rendered_template [OF run this] run show ?thesis
    by (simp add: step_plain_def)
qed

text \<open>
  The claim as it is written fails for the step \<^verbatim>\<open>handleLambda\<close> builds, whose
  template is empty: the body posted is empty. It fails as well for a step whose
  template is plain text.
\<close>

theorem payload_not_json_counterexample:
  "snd (ExecuteStep NewChainExecutor env_ok (direct_step ''user_create'')
          (direct_state ''user_create'' input1) []) = [(''http://localhost:8080'', [])] \<and>
   \<not> starts_json_object [] \<and>
   snd (ExecuteStep NewChainExecutor env_ok step_plain (direct_state ''create_user'' input1) [])
     = [(''http://localhost:8080'', ''email=a@b.com'')] \<and>
   \<not> starts_json_object ''email=a@b.com''"
  by (simp add: ExecuteStep_def render_template_def direct_step_def step_plain_def
        NewChainExecutor_def Sprintf_d_ports starts_json_object_def json_whitespace_def Let_def)



text \<open>
  Claim C10. The two \<^verbatim>\<open>ExecuteStep\<close> should agree on every answer. They do not. For
  a 200 answer of type \<^verbatim>\<open>application/json\<close> whose body does not parse, part_002
  returns a result with the code \<^verbatim>\<open>INVALID_JSON\<close> and executor.go a Go error. For a
  200 answer of type \<^verbatim>\<open>text/plain\<close> whose body parses, part_002 returns a result with
  the code \<^verbatim>\<open>INVALID_RESPONSE_TYPE\<close> and executor.go the decoded result. For a 500
  answer of type \<^verbatim>\<open>text/plain\<close>, the codes are \<^verbatim>\<open>INVALID_RESPONSE_TYPE\<close> and
  \<^verbatim>\<open>LAMBDA_ERROR\<close>. Where they agree is lemma \<open>read_response_agree\<close>.
\<close>

theorem ExecuteStep_files_disagree:
  "fst (ExecuteStep NewChainExecutor env_garbled step_verify (first_state step_verify input1) [])
     \<noteq> fst (ExecuteStep_orch env_garbled step_verify (first_state step_verify input1) []) \<and>
   fst (ExecuteStep NewChainExecutor (env_plain 200) step_verify (first_state step_verify input1) [])
     \<noteq> fst (ExecuteStep_orch (env_plain 200) step_verify (first_state step_verify input1) []) \<and>
   fst (ExecuteStep NewChainExecutor (env_plain 500) step_verify (first_state step_verify input1) [])
     = Inr (error_result ''verify_user''
              ''lambda returned unexpected Content-Type: text/plain; charset=utf-8, body: A''
              ''INVALID_RESPONSE_TYPE'') \<and>
   fst (ExecuteStep_orch (env_plain 500) step_verify (first_state step_verify input1) [])
     = Inr (error_result ''verify_user'' ''lambda returned error: A'' ''LAMBDA_ERROR'')"
  by (simp add: ExecuteStep_orch_def ExecuteStep_def render_template_def step_verify_def
        NewChainExecutor_def Sprintf_d_ports env_garbled_def env_plain_def env_ok_def
        ok_response_def plain_response_def read_response_def read_response_orch_def Let_def
        error_result_def result_A_def)

end
